theory Spec2Isabelle
  imports Main
begin

section \<open>Python values, errors and operations\<close>

text \<open>
  The examples are Python scripts. Exceptions are values of \<open>error\<close>, returned in the
  left summand. Strings are lists of characters with code points below 256. The values that
  occur in states and rows are integers, strings and dictionaries; a dictionary is a map
  from keys to values. The two operations of the SDK, \<open>op.upsert(table, data)\<close> and
  \<open>op.checkpoint(state)\<close>, are constructors: the SDK itself is outside the repository.
\<close>

datatype error =
    ValueError string
  | IndexError
  | TypeError
  | EngineError

datatype pyval =
    PInt int
  | PStr string
  | PDict "string \<Rightarrow> pyval option"

type_synonym pydict = "string \<Rightarrow> pyval option"

datatype operation =
    Upsert string pyval
  | Checkpoint pydict

text \<open>
  A generator is run to its end: the operations it yields, in order, and the exception
  that ended it, if any.
\<close>

type_synonym generated = "operation list \<times> error option"

section \<open>Characters and decimal numbers\<close>

definition is_digit :: "char \<Rightarrow> bool" where
  "is_digit c \<longleftrightarrow> 48 \<le> (of_char c :: nat) \<and> (of_char c :: nat) \<le> 57"

text \<open>The characters below 256 on which Python's \<open>str.isspace\<close> (the regex \<open>\s\<close>) holds.\<close>

definition is_space :: "char \<Rightarrow> bool" where
  "is_space c \<longleftrightarrow> (of_char c :: nat) \<in> {9, 10, 11, 12, 13, 28, 29, 30, 31, 32, 133, 160}"

definition is_cased :: "char \<Rightarrow> bool" where
  "is_cased c \<longleftrightarrow> (65 \<le> (of_char c :: nat) \<and> (of_char c :: nat) \<le> 90)
     \<or> (97 \<le> (of_char c :: nat) \<and> (of_char c :: nat) \<le> 122)
     \<or> 128 \<le> (of_char c :: nat)"

definition digit_char :: "nat \<Rightarrow> char" where
  "digit_char n = char_of (48 + n)"

definition digit_val :: "char \<Rightarrow> nat" where
  "digit_val c = of_char c - 48"

text \<open>The decimal digits of a natural number, as \<open>str(n)\<close> and \<open>%d\<close> print them.\<close>

fun dec :: "nat \<Rightarrow> string" where
  "dec n = (if n < 10 then [digit_char n] else dec (n div 10) @ [digit_char (n mod 10)])"

declare dec.simps [simp del]

text \<open>\<open>'%0wd' % n\<close>: zero padding on the left up to width \<open>w\<close>, never truncating.\<close>

definition zpad :: "nat \<Rightarrow> nat \<Rightarrow> string" where
  "zpad w n = replicate (w - length (dec n)) (CHR ''0'') @ dec n"

text \<open>The value of a string of decimal digits.\<close>

definition dec_val :: "string \<Rightarrow> nat" where
  "dec_val t = foldl (\<lambda>a c. 10 * a + digit_val c) 0 t"

text \<open>
  \<open>int(t)\<close> on the text of a regex group of \<open>strptime\<close>: digits, after one blank for a
  day written as \<open>' 5'\<close>. \<open>int\<close> skips the surrounding white space.
\<close>

definition py_int :: "string \<Rightarrow> nat" where
  "py_int t = dec_val (dropWhile is_space t)"

section \<open>The datetime type of the standard library\<close>

text \<open>
  A \<open>datetime\<close> object: the civil fields, and the offset from UTC in seconds when the
  object carries a time zone (\<open>None\<close> for a naive object).
\<close>

record datetime =
  year :: nat
  month :: nat
  day :: nat
  hour :: nat
  minute :: nat
  second :: nat
  microsecond :: nat
  utcoffset :: "int option"

definition is_leap :: "nat \<Rightarrow> bool" where
  "is_leap y \<longleftrightarrow> y mod 4 = 0 \<and> (y mod 100 \<noteq> 0 \<or> y mod 400 = 0)"

definition days_in_month :: "nat \<Rightarrow> nat \<Rightarrow> nat" where
  "days_in_month y m =
     (if m = 2 then (if is_leap y then 29 else 28)
      else if m = 4 \<or> m = 6 \<or> m = 9 \<or> m = 11 then 30 else 31)"

text \<open>The checks of the constructor \<open>datetime(y, m, d, H, M, S, us)\<close>.\<close>

definition valid_fields :: "nat \<Rightarrow> nat \<Rightarrow> nat \<Rightarrow> nat \<Rightarrow> nat \<Rightarrow> nat \<Rightarrow> nat \<Rightarrow> bool" where
  "valid_fields y mo d h mi s us \<longleftrightarrow>
     1 \<le> y \<and> y \<le> 9999 \<and> 1 \<le> mo \<and> mo \<le> 12 \<and> 1 \<le> d \<and> d \<le> days_in_month y mo
     \<and> h \<le> 23 \<and> mi \<le> 59 \<and> s \<le> 59 \<and> us \<le> 999999"

text \<open>A naive datetime, or \<open>None\<close> where the constructor raises \<open>ValueError\<close>.\<close>

definition datetime_new :: "nat \<Rightarrow> nat \<Rightarrow> nat \<Rightarrow> nat \<Rightarrow> nat \<Rightarrow> nat \<Rightarrow> nat \<Rightarrow> datetime option" where
  "datetime_new y mo d h mi s us =
     (if valid_fields y mo d h mi s us
      then Some \<lparr>year = y, month = mo, day = d, hour = h, minute = mi, second = s,
                 microsecond = us, utcoffset = None\<rparr>
      else None)"

text \<open>
  The offset that \<open>isoformat\<close> appends for an aware object: \<open>+HH:MM\<close>, and \<open>:SS\<close> when
  the offset has seconds.
\<close>

definition format_offset :: "int \<Rightarrow> string" where
  "format_offset off =
     (let a = nat \<bar>off\<bar>; hh = a div 3600; mm = (a mod 3600) div 60; ss = a mod 60
      in (if off < 0 then ''-'' else ''+'') @ zpad 2 hh @ '':'' @ zpad 2 mm
         @ (if ss \<noteq> 0 then '':'' @ zpad 2 ss else []))"

text \<open>\<open>datetime.isoformat()\<close> with its default separator \<open>T\<close>.\<close>

definition isoformat :: "datetime \<Rightarrow> string" where
  "isoformat dt =
     zpad 4 (year dt) @ ''-'' @ zpad 2 (month dt) @ ''-'' @ zpad 2 (day dt) @ ''T''
     @ zpad 2 (hour dt) @ '':'' @ zpad 2 (minute dt) @ '':'' @ zpad 2 (second dt)
     @ (if microsecond dt \<noteq> 0 then ''.'' @ zpad 6 (microsecond dt) else [])
     @ (case utcoffset dt of None \<Rightarrow> [] | Some off \<Rightarrow> format_offset off)"

section \<open>The parser of the standard library: strptime\<close>

text \<open>
  \<open>datetime.strptime(data_string, format)\<close> turns the format into a regular expression,
  matches it at the start of the data, requires the match to reach the end of the data,
  converts the groups with \<open>int\<close> and calls the constructor. Every failure is a
  \<open>ValueError\<close>, written \<open>None\<close>.

  The model covers the formats built from the directives \<open>%Y %m %d %H %M %S\<close> (each at
  most once), white space and characters without case; both formats of the repository are
  of this kind. A directive is the ordered list of the alternatives of its group, each
  alternative a sequence of character ranges:
  \<open>%Y\<close> is \<open>\d\d\d\d\<close>, \<open>%m\<close> is \<open>1[0-2]|0[1-9]|[1-9]\<close>,
  \<open>%d\<close> is \<open>3[0-1]|[1-2]\d|0[1-9]|[1-9]| [1-9]\<close>, \<open>%H\<close> is \<open>2[0-3]|[0-1]\d|\d\<close>,
  \<open>%M\<close> is \<open>[0-5]\d|\d\<close> and \<open>%S\<close> is \<open>6[0-1]|[0-5]\d|\d\<close>.
  A run of white space in the format is \<open>\s+\<close>.
\<close>

type_synonym cclass = "char \<times> char"

definition in_class :: "cclass \<Rightarrow> char \<Rightarrow> bool" where
  "in_class k c \<longleftrightarrow> (of_char (fst k) :: nat) \<le> of_char c \<and> (of_char c :: nat) \<le> of_char (snd k)"

definition any_digit :: cclass where
  "any_digit = (CHR ''0'', CHR ''9'')"

definition alts_Y :: "cclass list list" where
  "alts_Y = [[any_digit, any_digit, any_digit, any_digit]]"

definition alts_m :: "cclass list list" where
  "alts_m = [[(CHR ''1'', CHR ''1''), (CHR ''0'', CHR ''2'')],
             [(CHR ''0'', CHR ''0''), (CHR ''1'', CHR ''9'')],
             [(CHR ''1'', CHR ''9'')]]"

definition alts_d :: "cclass list list" where
  "alts_d = [[(CHR ''3'', CHR ''3''), (CHR ''0'', CHR ''1'')],
             [(CHR ''1'', CHR ''2''), any_digit],
             [(CHR ''0'', CHR ''0''), (CHR ''1'', CHR ''9'')],
             [(CHR ''1'', CHR ''9'')],
             [(CHR '' '', CHR '' ''), (CHR ''1'', CHR ''9'')]]"

definition alts_H :: "cclass list list" where
  "alts_H = [[(CHR ''2'', CHR ''2''), (CHR ''0'', CHR ''3'')],
             [(CHR ''0'', CHR ''1''), any_digit],
             [any_digit]]"

definition alts_M :: "cclass list list" where
  "alts_M = [[(CHR ''0'', CHR ''5''), any_digit],
             [any_digit]]"

definition alts_S :: "cclass list list" where
  "alts_S = [[(CHR ''6'', CHR ''6''), (CHR ''0'', CHR ''1'')],
             [(CHR ''0'', CHR ''5''), any_digit],
             [any_digit]]"

definition directive_alts :: "char \<Rightarrow> cclass list list option" where
  "directive_alts d =
     (if d = CHR ''Y'' then Some alts_Y
      else if d = CHR ''m'' then Some alts_m
      else if d = CHR ''d'' then Some alts_d
      else if d = CHR ''H'' then Some alts_H
      else if d = CHR ''M'' then Some alts_M
      else if d = CHR ''S'' then Some alts_S
      else None)"

datatype item =
    Lit char
  | Spaces
  | Dir char "cclass list list"

function compile_format :: "string \<Rightarrow> item list option" where
  "compile_format [] = Some []"
| "compile_format (c # cs) =
     (if c = CHR ''%'' then
        (case cs of
           [] \<Rightarrow> None
         | d # ds \<Rightarrow>
             (case directive_alts d of
                None \<Rightarrow> None
              | Some alts \<Rightarrow> map_option ((#) (Dir d alts)) (compile_format ds)))
      else if is_space c then
        map_option ((#) Spaces) (compile_format (dropWhile is_space cs))
      else if is_cased c then None
      else map_option ((#) (Lit c)) (compile_format cs))"
  by pat_completeness auto
termination
  by (relation "measure length") (auto simp: less_Suc_eq_le length_dropWhile_le)

text \<open>One alternative against the start of the data: the text it takes and the rest.\<close>

fun match_alt :: "cclass list \<Rightarrow> string \<Rightarrow> (string \<times> string) option" where
  "match_alt [] s = Some ([], s)"
| "match_alt (k # ks) [] = None"
| "match_alt (k # ks) (c # cs) =
     (if in_class k c then map_option (\<lambda>(t, r). (c # t, r)) (match_alt ks cs) else None)"

type_synonym groups = "(char \<times> string) list"

text \<open>
  All the ways the pattern matches a prefix of the data, in the order in which a
  backtracking matcher finds them: alternatives left to right, \<open>\s+\<close> longest first.
  Each match is the text of its groups and the data left over.
\<close>

fun matches :: "item list \<Rightarrow> string \<Rightarrow> (groups \<times> string) list" where
  "matches [] s = [([], s)]"
| "matches (Lit c # its) s =
     (case s of [] \<Rightarrow> [] | x # xs \<Rightarrow> if x = c then matches its xs else [])"
| "matches (Spaces # its) s =
     concat (map (\<lambda>k. matches its (drop k s))
                 (rev [1 ..< Suc (length (takeWhile is_space s))]))"
| "matches (Dir d alts # its) s =
     concat (map (\<lambda>alt. case match_alt alt s of
                           None \<Rightarrow> []
                         | Some (t, r) \<Rightarrow> map (\<lambda>(g, r'). ((d, t) # g, r')) (matches its r))
                 alts)"

text \<open>\<open>re.match\<close>: the first match, if there is one.\<close>

definition regex_match :: "item list \<Rightarrow> string \<Rightarrow> (groups \<times> string) option" where
  "regex_match its s = (case matches its s of [] \<Rightarrow> None | m # _ \<Rightarrow> Some m)"

text \<open>The number of a group, or the default of \<open>_strptime\<close> when the format has no such group.\<close>

definition group_nat :: "groups \<Rightarrow> char \<Rightarrow> nat \<Rightarrow> nat" where
  "group_nat found d dflt = (case map_of found d of None \<Rightarrow> dflt | Some t \<Rightarrow> py_int t)"

definition strptime :: "string \<Rightarrow> string \<Rightarrow> datetime option" where
  "strptime data_string format =
     (case compile_format format of
        None \<Rightarrow> None
      | Some its \<Rightarrow>
          (case regex_match its data_string of
             None \<Rightarrow> None
           | Some (found, rest) \<Rightarrow>
               if rest \<noteq> [] then None
               else datetime_new (group_nat found (CHR ''Y'') 1900)
                                 (group_nat found (CHR ''m'') 1)
                                 (group_nat found (CHR ''d'') 1)
                                 (group_nat found (CHR ''H'') 0)
                                 (group_nat found (CHR ''M'') 0)
                                 (group_nat found (CHR ''S'') 0)
                                 0))"

section \<open>multiple\_code\_files: TimestampSerializer\<close>

text \<open>
  The class object with its one attribute. The class methods take the class and return it
  with their result, so that a write to the attribute would show.
\<close>

record serializer_class =
  TIMESTAMP_FORMATS :: "string list"

definition TimestampSerializer :: serializer_class where
  "TimestampSerializer =
     \<lparr>TIMESTAMP_FORMATS = [''%Y/%m/%d %H:%M:%S'', ''%Y-%m-%d %H:%M:%S'']\<rparr>"

text \<open>
  The loop of \<open>parse_timestamp\<close> over the formats: the formats handed to \<open>strptime\<close>, in
  the order of the calls, and the first datetime that a call returned.
\<close>

fun try_formats :: "string list \<Rightarrow> string \<Rightarrow> string list \<times> datetime option" where
  "try_formats [] timestamp_str = ([], None)"
| "try_formats (fmt # fmts) timestamp_str =
     (case strptime timestamp_str fmt of
        Some dt \<Rightarrow> ([fmt], Some dt)
      | None \<Rightarrow> (let (tried, r) = try_formats fmts timestamp_str in (fmt # tried, r)))"

definition parse_timestamp ::
    "serializer_class \<Rightarrow> string \<Rightarrow> (error + datetime) \<times> serializer_class" where
  "parse_timestamp cls timestamp_str =
     (case snd (try_formats (TIMESTAMP_FORMATS cls) timestamp_str) of
        Some dt \<Rightarrow> (Inr dt, cls)
      | None \<Rightarrow>
          (Inl (ValueError (''Timestamp format not recognized: '' @ timestamp_str)), cls))"

definition serialize ::
    "serializer_class \<Rightarrow> string \<Rightarrow> (error + string) \<times> serializer_class" where
  "serialize cls timestamp =
     (case parse_timestamp cls timestamp of
        (Inl e, cls') \<Rightarrow> (Inl e, cls')
      | (Inr parsed_timestamp, cls') \<Rightarrow> (Inr (isoformat parsed_timestamp), cls'))"

section \<open>multiple\_code\_files: the connector\<close>

text \<open>
  The two documents that \<open>update\<close> hands to the serializer, with the line breaks and the
  indentation of the source. \<open>CHR 0x0A\<close> is the line feed and \<open>CHR 0x22\<close> the double
  quote.
\<close>

definition input_json_1 :: string where
  "input_json_1 =
     [CHR 0x0A] @ ''        {'' @ [CHR 0x0A]
     @ ''            '' @ [CHR 0x22] @ ''name'' @ [CHR 0x22] @ '': ''
       @ [CHR 0x22] @ ''Event1'' @ [CHR 0x22] @ '','' @ [CHR 0x0A]
     @ ''            '' @ [CHR 0x22] @ ''timestamp'' @ [CHR 0x22] @ '': ''
       @ [CHR 0x22] @ ''2024/09/24 14:30:45'' @ [CHR 0x22] @ [CHR 0x0A]
     @ ''        }'' @ [CHR 0x0A]
     @ ''        ''"

definition input_json_2 :: string where
  "input_json_2 =
     [CHR 0x0A] @ ''            {'' @ [CHR 0x0A]
     @ ''                '' @ [CHR 0x22] @ ''name'' @ [CHR 0x22] @ '': ''
       @ [CHR 0x22] @ ''Event2'' @ [CHR 0x22] @ '','' @ [CHR 0x0A]
     @ ''                '' @ [CHR 0x22] @ ''timestamp'' @ [CHR 0x22] @ '': ''
       @ [CHR 0x22] @ ''2024-09-24 10:30:45'' @ [CHR 0x22] @ [CHR 0x0A]
     @ ''            }'' @ [CHR 0x0A]
     @ ''            ''"

text \<open>
  \<open>update\<close> of \<open>multiple_code_files/connector.py\<close>. The argument of \<open>op.upsert\<close> is
  evaluated before the operation exists, so an exception of \<open>serialize\<close> ends the
  generator before the \<open>yield\<close> of that line.
\<close>

definition update_mcf :: "pydict \<Rightarrow> pydict \<Rightarrow> generated" where
  "update_mcf configuration state =
     (case serialize TimestampSerializer input_json_1 of
        (Inl e, _) \<Rightarrow> ([], Some e)
      | (Inr data1, cls1) \<Rightarrow>
          (case serialize cls1 input_json_2 of
             (Inl e, _) \<Rightarrow> ([Upsert ''event'' (PStr data1)], Some e)
           | (Inr data2, _) \<Rightarrow>
               ([Upsert ''event'' (PStr data1), Upsert ''event'' (PStr data2)], None)))"

section \<open>local: the connector\<close>

definition SOURCE_DATA :: "pyval list" where
  "SOURCE_DATA =
     [PDict [''id'' \<mapsto> PInt 10, ''message'' \<mapsto> PStr ''Hello world''],
      PDict [''id'' \<mapsto> PInt 20, ''message'' \<mapsto> PStr ''Hello again''],
      PDict [''id'' \<mapsto> PInt 30, ''message'' \<mapsto> PStr ''Good bye'']]"

text \<open>
  \<open>xs[i]\<close> on a list: a negative index counts from the end, an index out of range raises
  \<open>IndexError\<close>, an index that is not an integer raises \<open>TypeError\<close>.
\<close>

definition getitem :: "'a list \<Rightarrow> pyval \<Rightarrow> error + 'a" where
  "getitem xs i =
     (case i of
        PInt n \<Rightarrow>
          (let len = int (length xs); j = (if n < 0 then n + len else n)
           in if 0 \<le> j \<and> j < len then Inr (xs ! nat j) else Inl IndexError)
      | PStr _ \<Rightarrow> Inl TypeError
      | PDict _ \<Rightarrow> Inl TypeError)"

text \<open>\<open>v + 1\<close>: defined on an integer, \<open>TypeError\<close> on a string or a dictionary.\<close>

definition add_one :: "pyval \<Rightarrow> error + pyval" where
  "add_one v =
     (case v of
        PInt n \<Rightarrow> Inr (PInt (n + 1))
      | PStr _ \<Rightarrow> Inl TypeError
      | PDict _ \<Rightarrow> Inl TypeError)"

text \<open>
  \<open>update\<close> of \<open>local/connector.py\<close>. The two calls of \<open>log.fine\<close> write to the log of
  the SDK and yield nothing; they are left out.
\<close>

definition update_local :: "pydict \<Rightarrow> pydict \<Rightarrow> generated" where
  "update_local configuration state =
     (let cursor = (case state ''cursor'' of Some v \<Rightarrow> v | None \<Rightarrow> PInt 0) in
      case getitem SOURCE_DATA cursor of
        Inl e \<Rightarrow> ([], Some e)
      | Inr row \<Rightarrow>
          (case add_one cursor of
             Inl e \<Rightarrow> ([Upsert ''hello_world'' row], Some e)
           | Inr c \<Rightarrow>
               ([Upsert ''hello_world'' row, Checkpoint [''cursor'' \<mapsto> c]], None)))"

section \<open>key\_based\_replication: the connector\<close>

definition timestamp_format :: string where
  "timestamp_format = ''%Y-%m-%dT%H:%M:%SZ''"

text \<open>
  \<open>datetime.strftime\<close> for the directives of \<open>timestamp_format\<close>. Month, day,
  hour, minute and second are padded to two digits. The year is printed by the C library
  of the platform; glibc writes it without padding, so that the year 999 gives \<open>999\<close>.
  Every other character is copied. The offset of the datetime is not printed: the format
  has no directive for it, and its \<open>Z\<close> is a character like any other.
\<close>

definition directive_text :: "datetime \<Rightarrow> char \<Rightarrow> string" where
  "directive_text dt d =
     (if d = CHR ''Y'' then dec (year dt)
      else if d = CHR ''m'' then zpad 2 (month dt)
      else if d = CHR ''d'' then zpad 2 (day dt)
      else if d = CHR ''H'' then zpad 2 (hour dt)
      else if d = CHR ''M'' then zpad 2 (minute dt)
      else if d = CHR ''S'' then zpad 2 (second dt)
      else [CHR ''%'', d])"

fun strftime :: "datetime \<Rightarrow> string \<Rightarrow> string" where
  "strftime dt [] = []"
| "strftime dt [c] = [c]"
| "strftime dt (c # d # cs) =
     (if c = CHR ''%'' then directive_text dt d @ strftime dt cs
      else c # strftime dt (d # cs))"

definition dt2str :: "datetime \<Rightarrow> string" where
  "dt2str incoming = strftime incoming timestamp_format"

text \<open>
  A row of the table \<open>customers\<close> as \<open>fetchall\<close> returns it: the four columns that
  \<open>update\<close> passes on unread, and \<open>updated_at\<close> as a datetime. The column is a
  timestamp with time zone, so the datetime carries the offset of the zone of the session.
\<close>

record customer =
  customer_id :: pyval
  first_name :: pyval
  last_name :: pyval
  email :: pyval
  updated_at :: datetime

text \<open>
  The point in time of a datetime, in microseconds: the days since the start of the
  proleptic Gregorian calendar (\<open>toordinal\<close>), the time of day, less the offset from UTC.
  This is what a comparison of timestamps with time zone compares. A datetime without
  offset counts as UTC.
\<close>

definition days_before_year :: "nat \<Rightarrow> int" where
  "days_before_year y =
     (let p = int y - 1 in p * 365 + p div 4 - p div 100 + p div 400)"

definition days_before_month :: "nat \<Rightarrow> nat \<Rightarrow> nat" where
  "days_before_month y m = sum_list (map (days_in_month y) [1 ..< m])"

definition toordinal :: "datetime \<Rightarrow> int" where
  "toordinal dt =
     days_before_year (year dt) + int (days_before_month (year dt) (month dt)) + int (day dt)"

definition instant :: "datetime \<Rightarrow> int" where
  "instant dt =
     (toordinal dt * 86400 + int (hour dt) * 3600 + int (minute dt) * 60 + int (second dt)
      - (case utcoffset dt of None \<Rightarrow> 0 | Some off \<Rightarrow> off)) * 1000000
     + int (microsecond dt)"

text \<open>
  The text that the f-string of \<open>update\<close> pastes between the quotes of the statement
  \<open>... WHERE updated_at > '...' ORDER BY updated_at\<close>: \<open>str(last_synced)\<close>, as it is.
  The result is \<open>None\<close> when that text holds a quote, which ends the literal early and
  makes the statement another one, and for a dictionary, whose text is not modelled.
\<close>

definition int_text :: "int \<Rightarrow> string" where
  "int_text n = (if n < 0 then CHR ''-'' # dec (nat (- n)) else dec (nat n))"

definition pasted :: "pyval \<Rightarrow> string option" where
  "pasted v =
     (case v of
        PStr s \<Rightarrow> if CHR 0x27 \<in> set s then None else Some s
      | PInt n \<Rightarrow> Some (int_text n)
      | PDict _ \<Rightarrow> None)"

text \<open>
  The embedded database is outside the repository. It is given by the rows of its table,
  by how it reads the text of a literal as a timestamp (\<open>None\<close> when it rejects it), and by
  what it answers when the pasted text has made the statement another one. A statement
  with a literal is read as \<open>update\<close> writes it: the rows whose \<open>updated_at\<close> is later
  than the literal, ordered by \<open>updated_at\<close>.
\<close>

record warehouse =
  customers :: "customer list"
  timestamp_literal :: "string \<Rightarrow> datetime option"
  other_statement :: "pyval \<Rightarrow> error + customer list"

definition fetchall :: "warehouse \<Rightarrow> pyval \<Rightarrow> error + customer list" where
  "fetchall db last_synced =
     (case pasted last_synced of
        None \<Rightarrow> other_statement db last_synced
      | Some literal \<Rightarrow>
          (case timestamp_literal db literal of
             None \<Rightarrow> Inl EngineError
           | Some t \<Rightarrow>
               Inr (sort_key (\<lambda>row. instant (updated_at row))
                      (filter (\<lambda>row. instant t < instant (updated_at row)) (customers db)))))"

text \<open>The dictionary that \<open>update\<close> makes of a row.\<close>

definition row_data :: "customer \<Rightarrow> pyval" where
  "row_data row =
     PDict [''customer_id'' \<mapsto> customer_id row,
            ''first_name'' \<mapsto> first_name row,
            ''last_name'' \<mapsto> last_name row,
            ''email'' \<mapsto> email row,
            ''updated_at'' \<mapsto> PStr (dt2str (updated_at row))]"

text \<open>
  The loop of \<open>update\<close> over the rows: one upsert for each row, and the variable
  \<open>last_synced\<close> as the loop leaves it.
\<close>

fun upsert_rows :: "customer list \<Rightarrow> pyval \<Rightarrow> operation list \<times> pyval" where
  "upsert_rows [] last_synced = ([], last_synced)"
| "upsert_rows (row # result) last_synced =
     (let (ops, last_synced') = upsert_rows result (PStr (dt2str (updated_at row)))
      in (Upsert ''customers'' (row_data row) # ops, last_synced'))"

text \<open>
  \<open>update\<close> of \<open>key_based_replication/connector.py\<close>. The assignment
  \<open>state["last_synced"] = last_synced\<close> writes into the dictionary of the caller, and that
  dictionary is what the checkpoint carries.
\<close>

definition update_kbr :: "warehouse \<Rightarrow> pydict \<Rightarrow> pydict \<Rightarrow> generated" where
  "update_kbr db configuration state =
     (let last_synced =
            (case state ''last_synced'' of
               Some v \<Rightarrow> v
             | None \<Rightarrow> PStr ''2024-01-01T00:00:00Z'')
      in case fetchall db last_synced of
           Inl e \<Rightarrow> ([], Some e)
         | Inr result \<Rightarrow>
             (let (ops, last_synced') = upsert_rows result last_synced
              in (ops @ [Checkpoint (state(''last_synced'' \<mapsto> last_synced'))], None)))"

text \<open>The datetime of the given civil fields in UTC.\<close>

definition utc :: "nat \<Rightarrow> nat \<Rightarrow> nat \<Rightarrow> nat \<Rightarrow> nat \<Rightarrow> nat \<Rightarrow> datetime" where
  "utc y mo d h mi s =
     \<lparr>year = y, month = mo, day = d, hour = h, minute = mi, second = s,
      microsecond = 0, utcoffset = Some 0\<rparr>"

text \<open>
  The table printed in the comment at the end of \<open>key_based_replication/connector.py\<close>,
  with its times in UTC, in a database that reads the default cursor and the cursor that
  the run writes as the UTC times they spell.
\<close>

definition example_rows :: "customer list" where
  "example_rows =
     [\<lparr>customer_id = PInt 1, first_name = PStr ''Mathew'', last_name = PStr ''Perry'',
       email = PStr ''mathew@fivetran.com'', updated_at = utc 2023 12 31 23 59 59\<rparr>,
      \<lparr>customer_id = PInt 2, first_name = PStr ''Joe'', last_name = PStr ''Doe'',
       email = PStr ''joe@fivetran.com'', updated_at = utc 2024 1 31 23 4 39\<rparr>,
      \<lparr>customer_id = PInt 3, first_name = PStr ''Jake'', last_name = PStr ''Anderson'',
       email = PStr ''jake@fivetran.com'', updated_at = utc 2023 11 1 23 59 59\<rparr>,
      \<lparr>customer_id = PInt 4, first_name = PStr ''John'', last_name = PStr ''William'',
       email = PStr ''john@fivetran.com'', updated_at = utc 2024 2 14 22 59 59\<rparr>,
      \<lparr>customer_id = PInt 5, first_name = PStr ''Ricky'', last_name = PStr ''Roma'',
       email = PStr ''ricky@fivetran.com'', updated_at = utc 2024 3 16 16 40 29\<rparr>]"

definition example_warehouse :: warehouse where
  "example_warehouse =
     \<lparr>customers = example_rows,
      timestamp_literal =
        (\<lambda>s. if s = ''2024-01-01T00:00:00Z'' then Some (utc 2024 1 1 0 0 0)
             else if s = ''2024-03-16T16:40:29Z'' then Some (utc 2024 3 16 16 40 29)
             else None),
      other_statement = (\<lambda>v. Inl EngineError)\<rparr>"




section \<open>The two formats as patterns\<close>

lemma compile_slash:
  "compile_format ''%Y/%m/%d %H:%M:%S'' =
     Some [Dir (CHR ''Y'') alts_Y, Lit (CHR ''/''), Dir (CHR ''m'') alts_m, Lit (CHR ''/''),
           Dir (CHR ''d'') alts_d, Spaces, Dir (CHR ''H'') alts_H, Lit (CHR '':''),
           Dir (CHR ''M'') alts_M, Lit (CHR '':''), Dir (CHR ''S'') alts_S]"
  by (simp add: directive_alts_def is_space_def is_cased_def)

lemma compile_dash:
  "compile_format ''%Y-%m-%d %H:%M:%S'' =
     Some [Dir (CHR ''Y'') alts_Y, Lit (CHR ''-''), Dir (CHR ''m'') alts_m, Lit (CHR ''-''),
           Dir (CHR ''d'') alts_d, Spaces, Dir (CHR ''H'') alts_H, Lit (CHR '':''),
           Dir (CHR ''M'') alts_M, Lit (CHR '':''), Dir (CHR ''S'') alts_S]"
  by (simp add: directive_alts_def is_space_def is_cased_def)


section \<open>Decimal digits and padding\<close>

lemma of_char_digit_char: "n < 10 \<Longrightarrow> (of_char (digit_char n) :: nat) = 48 + n"
  by (simp add: digit_char_def)

lemma digit_val_digit_char: "n < 10 \<Longrightarrow> digit_val (digit_char n) = n"
  by (simp add: digit_val_def of_char_digit_char)

lemma is_digit_digit_char: "n < 10 \<Longrightarrow> is_digit (digit_char n)"
  by (simp add: is_digit_def of_char_digit_char)

lemma digit_char_neq: "n < 10 \<Longrightarrow> \<not> is_digit c \<Longrightarrow> digit_char n \<noteq> c"
  using is_digit_digit_char by blast

lemma not_space_digit_char: "n < 10 \<Longrightarrow> \<not> is_space (digit_char n)"
  by (simp add: is_space_def of_char_digit_char)

lemma in_class_digit_char:
  "n < 10 \<Longrightarrow> in_class (lo, hi) (digit_char n) \<longleftrightarrow> of_char lo \<le> 48 + n \<and> 48 + n \<le> (of_char hi :: nat)"
  by (simp add: in_class_def of_char_digit_char)

lemma dec_small: "n < 10 \<Longrightarrow> dec n = [digit_char n]"
  by (simp add: dec.simps [of n])

lemma dec_large: "10 \<le> n \<Longrightarrow> dec n = dec (n div 10) @ [digit_char (n mod 10)]"
  by (simp add: dec.simps [of n])

lemma digit_char_0: "digit_char 0 = CHR ''0''"
  by code_simp

lemma replicate_3: "replicate 3 x = [x, x, x]"
  by (simp add: numeral_3_eq_3)

lemma replicate_2: "replicate 2 x = [x, x]"
  by (simp add: numeral_2_eq_2)

lemma zpad2: "n < 100 \<Longrightarrow> zpad 2 n = [digit_char (n div 10), digit_char (n mod 10)]"
proof (cases "n < 10")
  case True
  then show ?thesis by (simp add: zpad_def dec_small digit_char_0)
next
  case False
  assume "n < 100"
  with False have "n div 10 < 10" "10 \<le> n" by simp_all
  then show ?thesis by (simp add: zpad_def dec_large dec_small)
qed

lemma zpad4:
  assumes "n < 10000"
  shows "zpad 4 n = [digit_char (n div 1000), digit_char (n div 100 mod 10),
                     digit_char (n div 10 mod 10), digit_char (n mod 10)]"
proof -
  consider "n < 10" | "10 \<le> n" "n < 100" | "100 \<le> n" "n < 1000" | "1000 \<le> n"
    by linarith
  then show ?thesis
  proof cases
    case 1
    then show ?thesis by (simp add: zpad_def dec_small digit_char_0 replicate_3 replicate_2)
  next
    case 2
    then have "n div 10 < 10" by simp
    with 2 show ?thesis
      by (simp add: zpad_def dec_large dec_small digit_char_0 replicate_3 replicate_2)
  next
    case 3
    then have a: "10 \<le> n div 10" "n div 10 div 10 < 10" "10 \<le> n" by simp_all
    have b: "n div 1000 = 0" "n div 10 div 10 = n div 100" using 3 by (simp_all add: div_mult2_eq)
    show ?thesis
      using a b 3
      by (simp add: zpad_def dec_large [of n] dec_large [of "n div 10"] dec_small digit_char_0 replicate_3 replicate_2)
  next
    case 4
    have c: "n div 10 div 10 = n div 100" "n div 10 div 10 div 10 = n div 1000"
      by (simp_all add: div_mult2_eq)
    from 4 assms have a: "10 \<le> n" "10 \<le> n div 10" "10 \<le> n div 10 div 10" "n div 10 div 10 div 10 < 10"
      by simp_all
    have d: "n div 1000 mod 10 = n div 1000" using assms by simp
    show ?thesis
      using a c d
      by (simp add: zpad_def dec_large [of n] dec_large [of "n div 10"] dec_large [of "n div 10 div 10"]
            dec_large [of "n div 100"] dec_small)
  qed
qed

lemma dec_val2: "a < 10 \<Longrightarrow> b < 10 \<Longrightarrow> dec_val [digit_char a, digit_char b] = 10 * a + b"
  by (simp add: dec_val_def digit_val_digit_char)

lemma dec_val4:
  "a < 10 \<Longrightarrow> b < 10 \<Longrightarrow> c < 10 \<Longrightarrow> d < 10 \<Longrightarrow>
   dec_val [digit_char a, digit_char b, digit_char c, digit_char d] = 1000 * a + 100 * b + 10 * c + d"
  by (simp add: dec_val_def digit_val_digit_char)

lemma py_int_zpad2: "n < 100 \<Longrightarrow> py_int (zpad 2 n) = n"
  by (simp add: py_int_def zpad2 not_space_digit_char dec_val2)

lemma digits4_sum:
  "1000 * (n div 1000) + 100 * (n div 100 mod 10) + 10 * (n div 10 mod 10) + n mod 10 = (n::nat)"
proof -
  have a: "n = 10 * (n div 10) + n mod 10" by simp
  have e: "n div 10 div 10 = n div 100" "n div 100 div 10 = n div 1000"
    by (simp_all add: div_mult2_eq)
  have "n div 10 = 10 * (n div 10 div 10) + n div 10 mod 10" by simp
  then have b: "n div 10 = 10 * (n div 100) + n div 10 mod 10" by (simp only: e)
  have "n div 100 = 10 * (n div 100 div 10) + n div 100 mod 10" by simp
  then have c: "n div 100 = 10 * (n div 1000) + n div 100 mod 10" by (simp only: e)
  from a b c show ?thesis by linarith
qed

lemma py_int_zpad4: "n < 10000 \<Longrightarrow> py_int (zpad 4 n) = n"
  by (simp add: py_int_def zpad4 not_space_digit_char dec_val4 digits4_sum)

section \<open>Matching a directive against padded digits\<close>

lemma is_space_blank: "is_space (CHR '' '')"
  by (simp add: is_space_def)

lemma matches_Spaces_none: "\<not> is_space y \<Longrightarrow> matches (Spaces # its) (y # rest) = []"
  by simp

lemma matches_Spaces_one:
  "is_space x \<Longrightarrow> \<not> is_space y \<Longrightarrow> matches (Spaces # its) (x # y # rest) = matches its (y # rest)"
  by simp

lemma matches_d:
  assumes "a < 10" "b < 10" "1 \<le> 10 * a + b" "10 * a + b \<le> 31" "h < 10"
  shows "matches (Dir (CHR ''d'') alts_d # Spaces # its)
           (digit_char a # digit_char b # CHR '' '' # digit_char h # rest)
         = map (\<lambda>(g, r'). ((CHR ''d'', [digit_char a, digit_char b]) # g, r'))
               (matches its (digit_char h # rest))"
  using assms
  by (auto simp add: alts_d_def any_digit_def in_class_digit_char matches_Spaces_none matches_Spaces_one
        not_space_digit_char is_space_blank simp del: matches.simps(3))

lemma matches_Y:
  assumes "a < 10" "b < 10" "c < 10" "d < 10"
  shows "matches (Dir (CHR ''Y'') alts_Y # Lit x # its)
           (digit_char a # digit_char b # digit_char c # digit_char d # x # rest)
         = map (\<lambda>(g, r'). ((CHR ''Y'', [digit_char a, digit_char b, digit_char c, digit_char d]) # g, r'))
               (matches its rest)"
  using assms by (simp add: alts_Y_def any_digit_def in_class_digit_char)

lemma matches_m:
  assumes "a < 10" "b < 10" "1 \<le> 10 * a + b" "10 * a + b \<le> 12" "\<not> is_digit x"
  shows "matches (Dir (CHR ''m'') alts_m # Lit x # its) (digit_char a # digit_char b # x # rest)
         = map (\<lambda>(g, r'). ((CHR ''m'', [digit_char a, digit_char b]) # g, r')) (matches its rest)"
  using assms by (auto simp add: alts_m_def in_class_digit_char digit_char_neq)

lemma matches_H:
  assumes "a < 10" "b < 10" "10 * a + b \<le> 23" "\<not> is_digit x"
  shows "matches (Dir (CHR ''H'') alts_H # Lit x # its) (digit_char a # digit_char b # x # rest)
         = map (\<lambda>(g, r'). ((CHR ''H'', [digit_char a, digit_char b]) # g, r')) (matches its rest)"
  using assms by (auto simp add: alts_H_def any_digit_def in_class_digit_char digit_char_neq)

lemma matches_M:
  assumes "a < 10" "b < 10" "10 * a + b \<le> 59" "\<not> is_digit x"
  shows "matches (Dir (CHR ''M'') alts_M # Lit x # its) (digit_char a # digit_char b # x # rest)
         = map (\<lambda>(g, r'). ((CHR ''M'', [digit_char a, digit_char b]) # g, r')) (matches its rest)"
  using assms by (auto simp add: alts_M_def any_digit_def in_class_digit_char digit_char_neq)

lemma matches_S:
  assumes "a < 10" "b < 10" "10 * a + b \<le> 59"
  shows "matches [Dir (CHR ''S'') alts_S] [digit_char a, digit_char b]
         = [([(CHR ''S'', [digit_char a, digit_char b])], []),
            ([(CHR ''S'', [digit_char a])], [digit_char b])]"
  using assms by (auto simp add: alts_S_def any_digit_def in_class_digit_char)

lemma two_digits: "(n::nat) < 100 \<Longrightarrow> n div 10 < 10 \<and> n mod 10 < 10 \<and> 10 * (n div 10) + n mod 10 = n"
  by simp

lemma matches_Y_zpad:
  assumes "y < 10000"
  shows "matches (Dir (CHR ''Y'') alts_Y # Lit x # its) (zpad 4 y @ x # rest)
         = map (\<lambda>(g, r'). ((CHR ''Y'', zpad 4 y) # g, r')) (matches its rest)"
proof -
  have "y div 1000 < 10" using assms by simp
  then show ?thesis
    using matches_Y [of "y div 1000" "y div 100 mod 10" "y div 10 mod 10" "y mod 10" x its rest]
    by (simp add: zpad4 [OF assms])
qed

lemma matches_m_zpad:
  assumes "1 \<le> n" "n \<le> 12" "\<not> is_digit x"
  shows "matches (Dir (CHR ''m'') alts_m # Lit x # its) (zpad 2 n @ x # rest)
         = map (\<lambda>(g, r'). ((CHR ''m'', zpad 2 n) # g, r')) (matches its rest)"
proof -
  have n: "n < 100" using assms by simp
  show ?thesis
    using matches_m [of "n div 10" "n mod 10" x its rest] two_digits [OF n] assms
    by (simp add: zpad2 [OF n])
qed

lemma matches_H_zpad:
  assumes "n \<le> 23" "\<not> is_digit x"
  shows "matches (Dir (CHR ''H'') alts_H # Lit x # its) (zpad 2 n @ x # rest)
         = map (\<lambda>(g, r'). ((CHR ''H'', zpad 2 n) # g, r')) (matches its rest)"
proof -
  have n: "n < 100" using assms by simp
  show ?thesis
    using matches_H [of "n div 10" "n mod 10" x its rest] two_digits [OF n] assms
    by (simp add: zpad2 [OF n])
qed

lemma matches_M_zpad:
  assumes "n \<le> 59" "\<not> is_digit x"
  shows "matches (Dir (CHR ''M'') alts_M # Lit x # its) (zpad 2 n @ x # rest)
         = map (\<lambda>(g, r'). ((CHR ''M'', zpad 2 n) # g, r')) (matches its rest)"
proof -
  have n: "n < 100" using assms by simp
  show ?thesis
    using matches_M [of "n div 10" "n mod 10" x its rest] two_digits [OF n] assms
    by (simp add: zpad2 [OF n])
qed

lemma matches_d_zpad:
  assumes "1 \<le> n" "n \<le> 31" "k < 100"
  shows "matches (Dir (CHR ''d'') alts_d # Spaces # its) (zpad 2 n @ CHR '' '' # zpad 2 k @ rest)
         = map (\<lambda>(g, r'). ((CHR ''d'', zpad 2 n) # g, r')) (matches its (zpad 2 k @ rest))"
proof -
  have n: "n < 100" using assms by simp
  show ?thesis
    using matches_d [of "n div 10" "n mod 10" "k div 10" its "digit_char (k mod 10) # rest"]
      two_digits [OF n] two_digits [OF \<open>k < 100\<close>] assms
    by (simp add: zpad2 [OF n] zpad2 [OF \<open>k < 100\<close>])
qed

lemma matches_S_zpad:
  assumes "n \<le> 59"
  shows "matches [Dir (CHR ''S'') alts_S] (zpad 2 n)
         = [([(CHR ''S'', zpad 2 n)], []), ([(CHR ''S'', [digit_char (n div 10)])], [digit_char (n mod 10)])]"
proof -
  have n: "n < 100" using assms by simp
  show ?thesis
    using matches_S [of "n div 10" "n mod 10"] two_digits [OF n] assms
    by (simp add: zpad2 [OF n])
qed

section \<open>strptime on the strings of the two formats\<close>

lemma days_in_month_le: "days_in_month y m \<le> 31"
  by (simp add: days_in_month_def)

lemma not_digit_colon: "\<not> is_digit (CHR '':'')"
  by (simp add: is_digit_def)

lemma regex_match_canonical:
  assumes v: "valid_fields y mo d h mi s us" and x: "\<not> is_digit x"
  shows "regex_match
           [Dir (CHR ''Y'') alts_Y, Lit x, Dir (CHR ''m'') alts_m, Lit x,
            Dir (CHR ''d'') alts_d, Spaces, Dir (CHR ''H'') alts_H, Lit (CHR '':''),
            Dir (CHR ''M'') alts_M, Lit (CHR '':''), Dir (CHR ''S'') alts_S]
           (zpad 4 y @ x # zpad 2 mo @ x # zpad 2 d @ CHR '' '' # zpad 2 h @ CHR '':'' #
            zpad 2 mi @ CHR '':'' # zpad 2 s)
         = Some ([(CHR ''Y'', zpad 4 y), (CHR ''m'', zpad 2 mo), (CHR ''d'', zpad 2 d),
                  (CHR ''H'', zpad 2 h), (CHR ''M'', zpad 2 mi), (CHR ''S'', zpad 2 s)], [])"
proof -
  from v have y: "y < 10000" and mo: "1 \<le> mo" "mo \<le> 12" and d1: "1 \<le> d"
    and h: "h \<le> 23" and mi: "mi \<le> 59" and s: "s \<le> 59"
    by (simp_all add: valid_fields_def)
  from v have "d \<le> days_in_month y mo" by (simp add: valid_fields_def)
  then have d2: "d \<le> 31" using days_in_month_le [of y mo] by linarith
  have h100: "h < 100" using h by simp
  show ?thesis
    unfolding regex_match_def
    by (simp only: matches_Y_zpad [OF y] matches_m_zpad [OF mo x] matches_d_zpad [OF d1 d2 h100]
          matches_H_zpad [OF h not_digit_colon] matches_M_zpad [OF mi not_digit_colon]
          matches_S_zpad [OF s] list.map prod.case list.case)
qed

lemma strptime_canonical_fields:
  assumes v: "valid_fields y mo d h mi s 0"
  shows "(let found = [(CHR ''Y'', zpad 4 y), (CHR ''m'', zpad 2 mo), (CHR ''d'', zpad 2 d),
                  (CHR ''H'', zpad 2 h), (CHR ''M'', zpad 2 mi), (CHR ''S'', zpad 2 s)] in
          datetime_new (group_nat found (CHR ''Y'') 1900)
                                 (group_nat found (CHR ''m'') 1)
                                 (group_nat found (CHR ''d'') 1)
                                 (group_nat found (CHR ''H'') 0)
                                 (group_nat found (CHR ''M'') 0)
                                 (group_nat found (CHR ''S'') 0)
                                 0)
         = Some \<lparr>year = y, month = mo, day = d, hour = h, minute = mi, second = s,
                 microsecond = 0, utcoffset = None\<rparr>"
proof -
  from v have y: "y < 10000" and mo: "mo < 100" and h: "h < 100" and mi: "mi < 100" and s: "s < 100"
    by (simp_all add: valid_fields_def)
  from v have "d \<le> days_in_month y mo" by (simp add: valid_fields_def)
  then have d: "d < 100" using days_in_month_le [of y mo] by linarith
  show ?thesis
    using v
    by (simp add: Let_def group_nat_def py_int_zpad4 [OF y] py_int_zpad2 [OF mo] py_int_zpad2 [OF d]
          py_int_zpad2 [OF h] py_int_zpad2 [OF mi] py_int_zpad2 [OF s] datetime_new_def)
qed

lemma strptime_slash:
  assumes v: "valid_fields y mo d h mi s 0"
  shows "strptime (zpad 4 y @ CHR ''/'' # zpad 2 mo @ CHR ''/'' # zpad 2 d @ CHR '' '' # zpad 2 h @ CHR '':'' #
            zpad 2 mi @ CHR '':'' # zpad 2 s) ''%Y/%m/%d %H:%M:%S''
         = Some \<lparr>year = y, month = mo, day = d, hour = h, minute = mi, second = s,
                 microsecond = 0, utcoffset = None\<rparr>"
proof -
  have x: "\<not> is_digit (CHR ''/'')" by (simp add: is_digit_def)
  show ?thesis
    unfolding strptime_def compile_slash
    using strptime_canonical_fields [OF v]
    by (simp only: regex_match_canonical [OF v x] option.case prod.case Let_def simp_thms if_False)
qed

lemma strptime_dash:
  assumes v: "valid_fields y mo d h mi s 0"
  shows "strptime (zpad 4 y @ CHR ''-'' # zpad 2 mo @ CHR ''-'' # zpad 2 d @ CHR '' '' # zpad 2 h @ CHR '':'' #
            zpad 2 mi @ CHR '':'' # zpad 2 s) ''%Y-%m-%d %H:%M:%S''
         = Some \<lparr>year = y, month = mo, day = d, hour = h, minute = mi, second = s,
                 microsecond = 0, utcoffset = None\<rparr>"
proof -
  have x: "\<not> is_digit (CHR ''-'')" by (simp add: is_digit_def)
  show ?thesis
    unfolding strptime_def compile_dash
    using strptime_canonical_fields [OF v]
    by (simp only: regex_match_canonical [OF v x] option.case prod.case Let_def simp_thms if_False)
qed

lemma matches_Y_mismatch:
  assumes "y < 10000" "x \<noteq> c"
  shows "matches (Dir (CHR ''Y'') alts_Y # Lit x # its) (zpad 4 y @ c # rest) = []"
proof -
  have "y div 1000 < 10" using assms by simp
  then show ?thesis
    using assms by (simp add: zpad4 alts_Y_def any_digit_def in_class_digit_char)
qed

lemma strptime_slash_on_dash:
  assumes v: "valid_fields y mo d h mi s 0"
  shows "strptime (zpad 4 y @ CHR ''-'' # rest) ''%Y/%m/%d %H:%M:%S'' = None"
proof -
  from v have y: "y < 10000" by (simp add: valid_fields_def)
  have ne: "CHR ''/'' \<noteq> CHR ''-''" by simp
  show ?thesis
    unfolding strptime_def compile_slash regex_match_def
    by (simp only: matches_Y_mismatch [OF y ne] list.case option.case)
qed

lemma strptime_dash_on_slash:
  assumes v: "valid_fields y mo d h mi s 0"
  shows "strptime (zpad 4 y @ CHR ''/'' # rest) ''%Y-%m-%d %H:%M:%S'' = None"
proof -
  from v have y: "y < 10000" by (simp add: valid_fields_def)
  have ne: "CHR ''-'' \<noteq> CHR ''/''" by simp
  show ?thesis
    unfolding strptime_def compile_dash regex_match_def
    by (simp only: matches_Y_mismatch [OF y ne] list.case option.case)
qed

section \<open>The serializer\<close>

lemma try_formats_class:
  "try_formats (TIMESTAMP_FORMATS TimestampSerializer) s =
     (case strptime s ''%Y/%m/%d %H:%M:%S'' of
        Some dt \<Rightarrow> ([''%Y/%m/%d %H:%M:%S''], Some dt)
      | None \<Rightarrow> ([''%Y/%m/%d %H:%M:%S'', ''%Y-%m-%d %H:%M:%S''], strptime s ''%Y-%m-%d %H:%M:%S''))"
  by (simp add: TimestampSerializer_def split: option.split)

lemma isoformat_naive:
  "isoformat \<lparr>year = y, month = mo, day = d, hour = h, minute = mi, second = s,
              microsecond = 0, utcoffset = None\<rparr>
   = zpad 4 y @ ''-'' @ zpad 2 mo @ ''-'' @ zpad 2 d @ ''T'' @ zpad 2 h @ '':'' @ zpad 2 mi
     @ '':'' @ zpad 2 s"
  by (simp add: isoformat_def)

text \<open>
  Claim C1. Let the fields \<open>y mo d h mi s\<close> be a valid calendar date and time of day, as
  the datetime type has them: the year from 1 to 9999, the month from 1 to 12, the day within
  the month (leap years counted), the hour up to 23, minute and second up to 59. For the
  string \<open>YYYY/MM/DD HH:MM:SS\<close> of these fields, and for the string
  \<open>YYYY-MM-DD HH:MM:SS\<close>, \<open>serialize\<close> returns \<open>YYYY-MM-DDTHH:MM:SS\<close> with the same
  digits: the same date and time of day, and nothing after the seconds, so no offset.
\<close>
theorem serialize_accepted_formats:
  assumes "valid_fields y mo d h mi s 0" and "sep = CHR ''/'' \<or> sep = CHR ''-''"
  shows "serialize TimestampSerializer
           (zpad 4 y @ [sep] @ zpad 2 mo @ [sep] @ zpad 2 d @ '' '' @ zpad 2 h @ '':''
            @ zpad 2 mi @ '':'' @ zpad 2 s)
         = (Inr (zpad 4 y @ ''-'' @ zpad 2 mo @ ''-'' @ zpad 2 d @ ''T'' @ zpad 2 h @ '':''
                 @ zpad 2 mi @ '':'' @ zpad 2 s),
            TimestampSerializer)"
proof -
  from assms(2) show ?thesis
  proof
    assume "sep = CHR ''/''"
    then show ?thesis
      using strptime_slash [OF assms(1)]
      by (simp add: serialize_def parse_timestamp_def try_formats_class isoformat_naive)
  next
    assume "sep = CHR ''-''"
    then show ?thesis
      using strptime_dash [OF assms(1)] strptime_slash_on_dash [OF assms(1)]
      by (simp add: serialize_def parse_timestamp_def try_formats_class isoformat_naive)
  qed
qed

lemma zpad_examples:
  "zpad 4 1999 = ''1999''" "zpad 2 12 = ''12''" "zpad 2 31 = ''31''" "zpad 2 23 = ''23''"
  "zpad 2 59 = ''59''" "zpad 4 2024 = ''2024''" "zpad 2 2 = ''02''" "zpad 2 29 = ''29''"
  "zpad 2 0 = ''00''" "zpad 2 9 = ''09''" "zpad 2 24 = ''24''" "zpad 2 14 = ''14''"
  "zpad 2 30 = ''30''" "zpad 2 45 = ''45''" "zpad 2 10 = ''10''"
  by code_simp+

theorem serialize_accepted_formats_witness:
  "valid_fields 1999 12 31 23 59 59 0 \<and> valid_fields 2024 2 29 0 0 0 0
   \<and> serialize TimestampSerializer ''1999/12/31 23:59:59''
       = (Inr ''1999-12-31T23:59:59'', TimestampSerializer)
   \<and> serialize TimestampSerializer ''2024-02-29 00:00:00''
       = (Inr ''2024-02-29T00:00:00'', TimestampSerializer)"
proof -
  have v1: "valid_fields 1999 12 31 23 59 59 0"
    by (simp add: valid_fields_def days_in_month_def)
  have v2: "valid_fields 2024 2 29 0 0 0 0"
    by (simp add: valid_fields_def days_in_month_def is_leap_def)
  have s1: "CHR ''/'' = CHR ''/'' \<or> CHR ''/'' = CHR ''-''" by simp
  have s2: "CHR ''-'' = CHR ''/'' \<or> CHR ''-'' = CHR ''-''" by simp
  show ?thesis
    using v1 v2 serialize_accepted_formats [OF v1 s1] serialize_accepted_formats [OF v2 s2]
    by (simp add: zpad_examples)
qed

lemma parse_timestamp_class:
  "parse_timestamp TimestampSerializer s =
     (case strptime s ''%Y/%m/%d %H:%M:%S'' of
        Some dt \<Rightarrow> (Inr dt, TimestampSerializer)
      | None \<Rightarrow>
          (case strptime s ''%Y-%m-%d %H:%M:%S'' of
             Some dt \<Rightarrow> (Inr dt, TimestampSerializer)
           | None \<Rightarrow> (Inl (ValueError (''Timestamp format not recognized: '' @ s)),
                       TimestampSerializer)))"
  by (simp add: parse_timestamp_def try_formats_class split: option.split)

lemma serialize_class:
  "serialize TimestampSerializer s =
     (case strptime s ''%Y/%m/%d %H:%M:%S'' of
        Some dt \<Rightarrow> (Inr (isoformat dt), TimestampSerializer)
      | None \<Rightarrow>
          (case strptime s ''%Y-%m-%d %H:%M:%S'' of
             Some dt \<Rightarrow> (Inr (isoformat dt), TimestampSerializer)
           | None \<Rightarrow> (Inl (ValueError (''Timestamp format not recognized: '' @ s)),
                       TimestampSerializer)))"
  by (simp add: serialize_def parse_timestamp_class split: option.split)

lemma not_digit_not_in_class: "\<not> is_digit c \<Longrightarrow> \<not> in_class any_digit c"
  by (simp add: in_class_def any_digit_def is_digit_def)

lemma matches_Y_not_digit:
  "\<not> is_digit c \<Longrightarrow> matches (Dir (CHR ''Y'') alts_Y # its) (c # rest) = []"
  by (simp add: alts_Y_def not_digit_not_in_class)

lemma strptime_first_not_digit:
  assumes "\<not> is_digit c"
  shows "strptime (c # rest) ''%Y/%m/%d %H:%M:%S'' = None"
    and "strptime (c # rest) ''%Y-%m-%d %H:%M:%S'' = None"
  unfolding strptime_def compile_slash compile_dash regex_match_def
  by (simp_all only: matches_Y_not_digit [OF assms] list.case option.case)

text \<open>
  Claim C3. \<open>parse_timestamp\<close> fails with the error whose message is
  \<open>Timestamp format not recognized: \<close> followed by the input exactly when \<open>strptime\<close>
  rejects the input under both formats, and it returns a datetime exactly when one of the
  two accepts it; the same holds of \<open>serialize\<close>, which returns a string in that case.
\<close>
theorem parse_timestamp_error_iff:
  "(fst (parse_timestamp TimestampSerializer s)
      = Inl (ValueError (''Timestamp format not recognized: '' @ s))
    \<longleftrightarrow> strptime s ''%Y/%m/%d %H:%M:%S'' = None \<and> strptime s ''%Y-%m-%d %H:%M:%S'' = None)
   \<and> ((\<exists>dt. fst (parse_timestamp TimestampSerializer s) = Inr dt)
    \<longleftrightarrow> \<not> (strptime s ''%Y/%m/%d %H:%M:%S'' = None \<and> strptime s ''%Y-%m-%d %H:%M:%S'' = None))
   \<and> (fst (serialize TimestampSerializer s)
      = Inl (ValueError (''Timestamp format not recognized: '' @ s))
    \<longleftrightarrow> strptime s ''%Y/%m/%d %H:%M:%S'' = None \<and> strptime s ''%Y-%m-%d %H:%M:%S'' = None)
   \<and> ((\<exists>iso. fst (serialize TimestampSerializer s) = Inr iso)
    \<longleftrightarrow> \<not> (strptime s ''%Y/%m/%d %H:%M:%S'' = None \<and> strptime s ''%Y-%m-%d %H:%M:%S'' = None))"
  by (auto simp add: parse_timestamp_class serialize_class split: option.split)

theorem parse_timestamp_error_iff_witness:
  "fst (parse_timestamp TimestampSerializer ''not-a-date'')
     = Inl (ValueError ''Timestamp format not recognized: not-a-date'')
   \<and> fst (serialize TimestampSerializer ''not-a-date'')
     = Inl (ValueError ''Timestamp format not recognized: not-a-date'')"
proof -
  have n: "\<not> is_digit (CHR ''n'')" by (simp add: is_digit_def)
  have a: "strptime ''not-a-date'' ''%Y/%m/%d %H:%M:%S'' = None"
    by (rule strptime_first_not_digit(1) [OF n])
  have b: "strptime ''not-a-date'' ''%Y-%m-%d %H:%M:%S'' = None"
    by (rule strptime_first_not_digit(2) [OF n])
  have c: "''Timestamp format not recognized: '' @ ''not-a-date''
           = ''Timestamp format not recognized: not-a-date''"
    by simp
  from parse_timestamp_error_iff [of "''not-a-date''"] show ?thesis
    unfolding c by (simp only: a b simp_thms)
qed

lemma strptime_month_13:
  "strptime ''2024-13-01 10:30:45'' ''%Y/%m/%d %H:%M:%S'' = None"
  "strptime ''2024-13-01 10:30:45'' ''%Y-%m-%d %H:%M:%S'' = None"
  unfolding strptime_def compile_dash compile_slash
  by (simp_all add: regex_match_def alts_Y_def alts_m_def in_class_def any_digit_def)

text \<open>
  Claim C4. On \<open>2024-13-01 10:30:45\<close> the call of \<open>serialize\<close> ends in the error
  \<open>Timestamp format not recognized: 2024-13-01 10:30:45\<close>; its result is the error and
  no string.
\<close>
theorem serialize_invalid_month:
  "serialize TimestampSerializer ''2024-13-01 10:30:45''
   = (Inl (ValueError ''Timestamp format not recognized: 2024-13-01 10:30:45''), TimestampSerializer)"
  by (simp only: serialize_class strptime_month_13 option.case append.simps)

theorem serialize_invalid_month_witness:
  "\<not> (\<exists>iso. fst (serialize TimestampSerializer ''2024-13-01 10:30:45'') = Inr iso)"
  using serialize_invalid_month by simp

text \<open>
  Claim C5. The list of formats is \<open>%Y/%m/%d %H:%M:%S\<close> followed by
  \<open>%Y-%m-%d %H:%M:%S\<close>. When \<open>strptime\<close> accepts the input under the first, the loop
  has called \<open>strptime\<close> with the first format only and the result is that datetime; when
  it rejects, the loop has called it with the first and then the second, and the result is
  what the second call gives, or the error when that call fails too.
\<close>
theorem parse_timestamp_order:
  "TIMESTAMP_FORMATS TimestampSerializer = [''%Y/%m/%d %H:%M:%S'', ''%Y-%m-%d %H:%M:%S'']
   \<and> try_formats (TIMESTAMP_FORMATS TimestampSerializer) s =
       (case strptime s ''%Y/%m/%d %H:%M:%S'' of
          Some dt \<Rightarrow> ([''%Y/%m/%d %H:%M:%S''], Some dt)
        | None \<Rightarrow> ([''%Y/%m/%d %H:%M:%S'', ''%Y-%m-%d %H:%M:%S''],
                    strptime s ''%Y-%m-%d %H:%M:%S''))
   \<and> fst (parse_timestamp TimestampSerializer s) =
       (case strptime s ''%Y/%m/%d %H:%M:%S'' of
          Some dt \<Rightarrow> Inr dt
        | None \<Rightarrow>
            (case strptime s ''%Y-%m-%d %H:%M:%S'' of
               Some dt \<Rightarrow> Inr dt
             | None \<Rightarrow> Inl (ValueError (''Timestamp format not recognized: '' @ s))))"
proof -
  have "TIMESTAMP_FORMATS TimestampSerializer = [''%Y/%m/%d %H:%M:%S'', ''%Y-%m-%d %H:%M:%S'']"
    by (simp add: TimestampSerializer_def)
  moreover have "fst (parse_timestamp TimestampSerializer s) =
       (case strptime s ''%Y/%m/%d %H:%M:%S'' of
          Some dt \<Rightarrow> Inr dt
        | None \<Rightarrow>
            (case strptime s ''%Y-%m-%d %H:%M:%S'' of
               Some dt \<Rightarrow> Inr dt
             | None \<Rightarrow> Inl (ValueError (''Timestamp format not recognized: '' @ s))))"
    by (simp add: parse_timestamp_class split: option.split)
  ultimately show ?thesis
    using try_formats_class [of s] by (simp only: simp_thms)
qed

lemma strptime_examples:
  "strptime ''2024/09/24 14:30:45'' ''%Y/%m/%d %H:%M:%S''
     = Some \<lparr>year = 2024, month = 9, day = 24, hour = 14, minute = 30, second = 45,
             microsecond = 0, utcoffset = None\<rparr>"
  "strptime ''2024-09-24 10:30:45'' ''%Y-%m-%d %H:%M:%S''
     = Some \<lparr>year = 2024, month = 9, day = 24, hour = 10, minute = 30, second = 45,
             microsecond = 0, utcoffset = None\<rparr>"
  "strptime ''2024-09-24 10:30:45'' ''%Y/%m/%d %H:%M:%S'' = None"
proof -
  have v1: "valid_fields 2024 9 24 14 30 45 0" and v2: "valid_fields 2024 9 24 10 30 45 0"
    by (simp_all add: valid_fields_def days_in_month_def)
  show "strptime ''2024/09/24 14:30:45'' ''%Y/%m/%d %H:%M:%S''
     = Some \<lparr>year = 2024, month = 9, day = 24, hour = 14, minute = 30, second = 45,
             microsecond = 0, utcoffset = None\<rparr>"
    using strptime_slash [OF v1] by (simp add: zpad_examples)
  show "strptime ''2024-09-24 10:30:45'' ''%Y-%m-%d %H:%M:%S''
     = Some \<lparr>year = 2024, month = 9, day = 24, hour = 10, minute = 30, second = 45,
             microsecond = 0, utcoffset = None\<rparr>"
    using strptime_dash [OF v2] by (simp add: zpad_examples)
  show "strptime ''2024-09-24 10:30:45'' ''%Y/%m/%d %H:%M:%S'' = None"
    using strptime_slash_on_dash [OF v2, of "''09-24 10:30:45''"] by (simp add: zpad_examples)
qed

theorem parse_timestamp_order_witness:
  "fst (try_formats (TIMESTAMP_FORMATS TimestampSerializer) ''2024/09/24 14:30:45'')
     = [''%Y/%m/%d %H:%M:%S'']
   \<and> fst (try_formats (TIMESTAMP_FORMATS TimestampSerializer) ''2024-09-24 10:30:45'')
     = [''%Y/%m/%d %H:%M:%S'', ''%Y-%m-%d %H:%M:%S'']"
  using parse_timestamp_order [of "''2024/09/24 14:30:45''"]
    parse_timestamp_order [of "''2024-09-24 10:30:45''"]
  by (simp add: strptime_examples)

text \<open>
  Claim C6. \<open>serialize\<close> returns \<open>2024-09-24T14:30:45\<close> on \<open>2024/09/24 14:30:45\<close>
  and \<open>2024-09-24T10:30:45\<close> on \<open>2024-09-24 10:30:45\<close>.
\<close>
theorem serialize_scenarios:
  "fst (serialize TimestampSerializer ''2024/09/24 14:30:45'') = Inr ''2024-09-24T14:30:45''
   \<and> fst (serialize TimestampSerializer ''2024-09-24 10:30:45'') = Inr ''2024-09-24T10:30:45''"
  by (simp add: serialize_class strptime_examples isoformat_naive zpad_examples)

theorem serialize_scenarios_witness:
  "\<exists>iso. fst (serialize TimestampSerializer ''2024/09/24 14:30:45'') = Inr iso"
  using serialize_scenarios by simp

lemma parse_timestamp_class_unchanged: "snd (parse_timestamp cls s) = cls"
  by (simp add: parse_timestamp_def split: option.split)

lemma serialize_class_unchanged: "snd (serialize cls s) = cls"
proof (cases "parse_timestamp cls s")
  case (Pair r cls')
  with parse_timestamp_class_unchanged [of cls s] have "cls' = cls" by simp
  with Pair show ?thesis by (cases r) (simp_all add: serialize_def)
qed

text \<open>
  Claim C8. A call of \<open>serialize\<close> or of \<open>parse_timestamp\<close> leaves the class as it
  was, the list \<open>TIMESTAMP_FORMATS\<close> included, and a second call on the same input gives
  the same result, a string or an error, as the first.
\<close>
theorem serialize_pure:
  "snd (serialize cls s) = cls
   \<and> snd (parse_timestamp cls s) = cls
   \<and> TIMESTAMP_FORMATS (snd (serialize cls s)) = TIMESTAMP_FORMATS cls
   \<and> (case serialize cls s of
        (r1, cls1) \<Rightarrow> (case serialize cls1 s of (r2, cls2) \<Rightarrow> r1 = r2 \<and> cls2 = cls))"
  using serialize_class_unchanged [of cls s] parse_timestamp_class_unchanged [of cls s]
  by (auto split: prod.split)

theorem serialize_pure_witness:
  "snd (serialize TimestampSerializer ''not-a-date'') = TimestampSerializer"
  using serialize_pure [of TimestampSerializer "''not-a-date''"] by simp

text \<open>
  Claim C9. For every configuration and every state, the generator of
  \<open>multiple_code_files\<close> ends in the error \<open>Timestamp format not recognized\<close>, whose
  message carries the whole first document, and has yielded no operation: the document that
  \<open>update\<close> hands to \<open>serialize\<close> starts with a line feed, which neither format accepts.
\<close>
theorem update_mcf_raises:
  "update_mcf configuration state
   = ([], Some (ValueError (''Timestamp format not recognized: '' @ input_json_1)))"
proof -
  have n: "\<not> is_digit (CHR 0x0A)" by (simp add: is_digit_def)
  obtain rest where r: "input_json_1 = CHR 0x0A # rest"
    by (simp add: input_json_1_def)
  have "strptime input_json_1 ''%Y/%m/%d %H:%M:%S'' = None"
       "strptime input_json_1 ''%Y-%m-%d %H:%M:%S'' = None"
    unfolding r using strptime_first_not_digit [OF n] by simp_all
  then show ?thesis
    by (simp add: update_mcf_def serialize_class)
qed

theorem update_mcf_raises_witness:
  "fst (update_mcf Map.empty Map.empty) = []"
  using update_mcf_raises [of Map.empty Map.empty] by simp

section \<open>The connectors\<close>

subsection \<open>local\<close>

lemma SOURCE_DATA_length: "length SOURCE_DATA = 3"
  by (simp add: SOURCE_DATA_def)

text \<open>
  Claim C2. Let the state hold the integer \<open>n\<close> under \<open>cursor\<close>. When \<open>n\<close> is at least
  0 and below the length of \<open>SOURCE_DATA\<close>, the generator of the local example yields the
  upsert of row \<open>n\<close> of \<open>SOURCE_DATA\<close> into \<open>hello_world\<close>, then the checkpoint of the
  mapping that holds \<open>n + 1\<close> under \<open>cursor\<close> and nothing else, and ends. When \<open>n\<close> is
  the length or more, no check of the example catches it: the indexing raises
  \<open>IndexError\<close> and nothing is yielded.
\<close>
theorem update_local_cursor:
  assumes "state ''cursor'' = Some (PInt n)"
  shows "(0 \<le> n \<and> n < int (length SOURCE_DATA) \<longrightarrow>
            update_local configuration state
            = ([Upsert ''hello_world'' (SOURCE_DATA ! nat n),
                Checkpoint [''cursor'' \<mapsto> PInt (n + 1)]], None))
         \<and> (int (length SOURCE_DATA) \<le> n \<longrightarrow>
            update_local configuration state = ([], Some IndexError))"
  using assms by (simp add: update_local_def getitem_def add_one_def Let_def)

theorem update_local_cursor_witness:
  "update_local Map.empty [''cursor'' \<mapsto> PInt 1]
     = ([Upsert ''hello_world'' (PDict [''id'' \<mapsto> PInt 20, ''message'' \<mapsto> PStr ''Hello again'']),
         Checkpoint [''cursor'' \<mapsto> PInt 2]], None)
   \<and> update_local Map.empty [''cursor'' \<mapsto> PInt 3] = ([], Some IndexError)"
proof -
  have a: "[''cursor'' \<mapsto> PInt 1] ''cursor'' = Some (PInt 1)"
    and b: "[''cursor'' \<mapsto> PInt 3] ''cursor'' = Some (PInt 3)"
    by simp_all
  have c: "SOURCE_DATA ! Suc 0 = PDict [''id'' \<mapsto> PInt 20, ''message'' \<mapsto> PStr ''Hello again'']"
    by (simp add: SOURCE_DATA_def)
  from update_local_cursor [where state = "[''cursor'' \<mapsto> PInt 1]" and n = 1
         and configuration = Map.empty, OF a]
       update_local_cursor [where state = "[''cursor'' \<mapsto> PInt 3]" and n = 3
         and configuration = Map.empty, OF b]
  show ?thesis by (simp add: SOURCE_DATA_length c)
qed

subsection \<open>key\_based\_replication\<close>







text \<open>
  Claim C7. A state without the key \<open>cursor\<close> gives, in the local example, the run that
  the same state with \<open>cursor\<close> set to 0 gives; a state without the key \<open>last_synced\<close>
  gives, in the key based example, the run that the same state with \<open>last_synced\<close> set to
  \<open>2024-01-01T00:00:00Z\<close> gives.
\<close>
theorem absent_keys_default:
  "(state ''cursor'' = None \<longrightarrow>
      update_local configuration state
      = update_local configuration (state(''cursor'' \<mapsto> PInt 0)))
   \<and> (state ''last_synced'' = None \<longrightarrow>
      update_kbr db configuration state
      = update_kbr db configuration (state(''last_synced'' \<mapsto> PStr ''2024-01-01T00:00:00Z'')))"
  by (simp add: update_local_def update_kbr_def Let_def split: sum.split prod.split)

theorem absent_keys_default_witness:
  "update_local Map.empty Map.empty = update_local Map.empty [''cursor'' \<mapsto> PInt 0]
   \<and> update_kbr example_warehouse Map.empty Map.empty
     = update_kbr example_warehouse Map.empty [''last_synced'' \<mapsto> PStr ''2024-01-01T00:00:00Z'']"
  using absent_keys_default [of Map.empty Map.empty example_warehouse] by simp














end
